theory Spec2Isabelle
  imports Main
begin

section \<open>Types (types.ts)\<close>

text \<open>
  The four phases of the timer. In the TypeScript source the enum members are the
  strings \<open>idle\<close>, \<open>work_session\<close>, \<open>rest_period\<close> and \<open>paused\<close>; the tags
  matter only where a phase is written to or read from storage (see \<open>tag\<close> below).
\<close>

datatype TimerState = IDLE | WORK_SESSION | REST_PERIOD | PAUSED

text \<open>
  A JavaScript \<open>Date\<close> object: a time value in milliseconds since the epoch, or the
  Invalid Date, whose \<open>getTime()\<close> is NaN. Either is an object, hence truthy.
\<close>

datatype Date = Date int | InvalidDate

text \<open>
  \<open>TimerContext\<close>. The numbers are modelled as integers (seconds and minutes), optional
  fields as options (\<open>None\<close> is \<open>undefined\<close>).
\<close>

record TimerContext =
  currentState :: TimerState
  remainingTime :: int
  sessionDuration :: int
  restDuration :: int
  pausedAt :: "Date option"
  sessionStartTime :: "Date option"

datatype TimerEventData =
  TimerEventData (ev_state: TimerState) (ev_remainingTime: int) (ev_isTransition: bool)

text \<open>The two event channels of the emitter, \<open>stateChange\<close> and \<open>timerComplete\<close>.\<close>

datatype TimerEvent = StateChange TimerEventData | TimerComplete TimerEventData

section \<open>The timer engine (class TimerManager)\<close>

text \<open>
  The object's fields: the context, whether an interval is scheduled (\<open>intervalId\<close> is
  not null), and the events emitted so far, in order. Listeners are outside the engine;
  what they are sent is kept as a log. \<open>new Date()\<close> is the argument \<open>now\<close> of the
  operations that read the clock.
\<close>

record TimerManager =
  ctx :: TimerContext
  intervalId :: bool
  emitted :: "TimerEvent list"

definition constructor :: "int \<Rightarrow> int \<Rightarrow> TimerManager" where
  "constructor sessionDuration' restDuration' =
     \<lparr>ctx = \<lparr>currentState = IDLE, remainingTime = 0,
              sessionDuration = sessionDuration', restDuration = restDuration',
              pausedAt = None, sessionStartTime = None\<rparr>,
      intervalId = False, emitted = []\<rparr>"

definition startTimer :: "TimerManager \<Rightarrow> TimerManager" where
  "startTimer m = m\<lparr>intervalId := True\<rparr>"

definition stopTimer :: "TimerManager \<Rightarrow> TimerManager" where
  "stopTimer m = m\<lparr>intervalId := False\<rparr>"

definition emitStateChange :: "bool \<Rightarrow> TimerManager \<Rightarrow> TimerManager" where
  "emitStateChange isTransition m =
     (let eventData = TimerEventData (currentState (ctx m)) (remainingTime (ctx m)) isTransition
      in m\<lparr>emitted := emitted m @ [StateChange eventData]
                          @ (if isTransition then [TimerComplete eventData] else [])\<rparr>)"

definition startSession :: "int \<Rightarrow> TimerManager \<Rightarrow> TimerManager" where
  "startSession now m =
     (let m1 = stopTimer m;
          m2 = m1\<lparr>ctx := (ctx m1)\<lparr>currentState := WORK_SESSION,
                                   remainingTime := sessionDuration (ctx m1) * 60,
                                   sessionStartTime := Some (Date now),
                                   pausedAt := None\<rparr>\<rparr>
      in emitStateChange False (startTimer m2))"

definition startRest :: "int \<Rightarrow> TimerManager \<Rightarrow> TimerManager" where
  "startRest now m =
     (let m1 = stopTimer m;
          m2 = m1\<lparr>ctx := (ctx m1)\<lparr>currentState := REST_PERIOD,
                                   remainingTime := restDuration (ctx m1) * 60,
                                   sessionStartTime := Some (Date now),
                                   pausedAt := None\<rparr>\<rparr>
      in emitStateChange False (startTimer m2))"

definition pause :: "int \<Rightarrow> TimerManager \<Rightarrow> TimerManager" where
  "pause now m =
     (if currentState (ctx m) = WORK_SESSION \<or> currentState (ctx m) = REST_PERIOD
      then (let m1 = stopTimer m;
                m2 = m1\<lparr>ctx := (ctx m1)\<lparr>currentState := PAUSED,
                                         pausedAt := Some (Date now)\<rparr>\<rparr>
            in emitStateChange False m2)
      else m)"

text \<open>
  \<open>resume\<close> picks the phase to go back to from the context: with time remaining,
  a work session when \<open>sessionStartTime\<close> is set and a rest period otherwise; with no
  time remaining, idle.
\<close>

definition resume :: "TimerManager \<Rightarrow> TimerManager" where
  "resume m =
     (if currentState (ctx m) = PAUSED \<and> pausedAt (ctx m) \<noteq> None
      then (let previousState =
                  (if remainingTime (ctx m) > 0
                   then (if sessionStartTime (ctx m) \<noteq> None then WORK_SESSION else REST_PERIOD)
                   else IDLE);
                m1 = m\<lparr>ctx := (ctx m)\<lparr>currentState := previousState, pausedAt := None\<rparr>\<rparr>;
                m2 = (if previousState \<noteq> IDLE then startTimer m1 else m1)
            in emitStateChange False m2)
      else m)"

definition reset :: "TimerManager \<Rightarrow> TimerManager" where
  "reset m =
     (let m1 = stopTimer m;
          m2 = m1\<lparr>ctx := (ctx m1)\<lparr>currentState := IDLE, remainingTime := 0,
                                   sessionStartTime := None, pausedAt := None\<rparr>\<rparr>
      in emitStateChange False m2)"

definition handleTimerCompletion :: "TimerManager \<Rightarrow> TimerManager" where
  "handleTimerCompletion m =
     (let currentState' = currentState (ctx m);
          m1 = stopTimer m;
          m2 = (if currentState' = WORK_SESSION
                then (let m3 = emitStateChange True m1
                      in m3\<lparr>ctx := (ctx m3)\<lparr>currentState := IDLE, remainingTime := 0,
                                               sessionStartTime := None\<rparr>\<rparr>)
                else if currentState' = REST_PERIOD
                then (let m3 = emitStateChange True m1
                      in m3\<lparr>ctx := (ctx m3)\<lparr>currentState := IDLE, remainingTime := 0,
                                               sessionStartTime := None\<rparr>\<rparr>)
                else m1)
      in emitStateChange False m2)"

text \<open>
  \<open>updateDurations\<close> stores the two durations as they come, then adjusts the remaining
  time of the phase in progress. While paused, the phase that was paused is inferred:
  a work session when the remaining time exceeds the old rest duration.
\<close>

definition updateDurations :: "int \<Rightarrow> int \<Rightarrow> TimerManager \<Rightarrow> TimerManager" where
  "updateDurations sessionDuration' restDuration' m =
     (let oldSessionDuration = sessionDuration (ctx m);
          oldRestDuration = restDuration (ctx m);
          m1 = m\<lparr>ctx := (ctx m)\<lparr>sessionDuration := sessionDuration',
                                 restDuration := restDuration'\<rparr>\<rparr>;
          rem = remainingTime (ctx m1)
      in if currentState (ctx m1) = IDLE then m1
         else if currentState (ctx m1) = WORK_SESSION then
           (if oldSessionDuration \<noteq> sessionDuration' then
              (let elapsedTime = oldSessionDuration * 60 - rem;
                   newTotalTime = sessionDuration' * 60;
                   m2 = m1\<lparr>ctx := (ctx m1)\<lparr>remainingTime := max 0 (newTotalTime - elapsedTime)\<rparr>\<rparr>
               in if remainingTime (ctx m2) = 0 then handleTimerCompletion m2
                  else emitStateChange False m2)
            else emitStateChange False m1)
         else if currentState (ctx m1) = REST_PERIOD then
           (if oldRestDuration \<noteq> restDuration' then
              (let elapsedTime = oldRestDuration * 60 - rem;
                   newTotalTime = restDuration' * 60;
                   m2 = m1\<lparr>ctx := (ctx m1)\<lparr>remainingTime := max 0 (newTotalTime - elapsedTime)\<rparr>\<rparr>
               in if remainingTime (ctx m2) = 0 then handleTimerCompletion m2
                  else emitStateChange False m2)
            else emitStateChange False m1)
         else if currentState (ctx m1) = PAUSED then
           (let wasWorkSession = (rem > oldRestDuration * 60)
            in if wasWorkSession \<and> oldSessionDuration \<noteq> sessionDuration' then
                 (let elapsedTime = oldSessionDuration * 60 - rem;
                      newTotalTime = sessionDuration' * 60
                  in emitStateChange False
                       (m1\<lparr>ctx := (ctx m1)\<lparr>remainingTime := max 0 (newTotalTime - elapsedTime)\<rparr>\<rparr>))
               else if \<not> wasWorkSession \<and> oldRestDuration \<noteq> restDuration' then
                 (let elapsedTime = oldRestDuration * 60 - rem;
                      newTotalTime = restDuration' * 60
                  in emitStateChange False
                       (m1\<lparr>ctx := (ctx m1)\<lparr>remainingTime := max 0 (newTotalTime - elapsedTime)\<rparr>\<rparr>))
               else emitStateChange False m1)
         else emitStateChange False m1)"

definition tick :: "TimerManager \<Rightarrow> TimerManager" where
  "tick m =
     (if remainingTime (ctx m) > 0
      then emitStateChange False (m\<lparr>ctx := (ctx m)\<lparr>remainingTime := remainingTime (ctx m) - 1\<rparr>\<rparr>)
      else handleTimerCompletion m)"

text \<open>
  The public operations, with the callback of the interval as \<open>Tick\<close>: the scheduler
  calls \<open>tick\<close> once a second while an interval is scheduled, and not otherwise.
\<close>

datatype TimerOp =
  StartSession int | StartRest int | Pause int | Resume | Reset
  | UpdateDurations int int | Tick

fun perform :: "TimerManager \<Rightarrow> TimerOp \<Rightarrow> TimerManager" where
  "perform m (StartSession now) = startSession now m"
| "perform m (StartRest now) = startRest now m"
| "perform m (Pause now) = pause now m"
| "perform m Resume = resume m"
| "perform m Reset = reset m"
| "perform m (UpdateDurations s r) = updateDurations s r m"
| "perform m Tick = (if intervalId m then tick m else m)"

definition run :: "TimerManager \<Rightarrow> TimerOp list \<Rightarrow> TimerManager" where
  "run m ops = foldl perform m ops"

text \<open>The completion notifications among the events emitted.\<close>

fun completions :: "TimerEvent list \<Rightarrow> TimerEventData list" where
  "completions [] = []"
| "completions (TimerComplete d # es) = d # completions es"
| "completions (StateChange d # es) = completions es"

text \<open>
  Whether an operation passes durations within the bounds of the configuration
  (1 to 120 minutes of work, 1 to 60 minutes of rest); used to state what holds when the
  host only passes validated durations.
\<close>

fun op_in_bounds :: "TimerOp \<Rightarrow> bool" where
  "op_in_bounds (UpdateDurations s r) = (1 \<le> s \<and> s \<le> 120 \<and> 1 \<le> r \<and> r \<le> 60)"
| "op_in_bounds _ = True"

section \<open>Stored values\<close>

text \<open>
  What \<open>globalState.get\<close> can return: \<open>undefined\<close> when nothing is stored under the
  key, otherwise a value of any shape. Numbers are integers here; an object is the list
  of its properties, looked up by name (the first entry of a name counts);
  \<open>JDate\<close> is a \<open>Date\<close> object.
\<close>

datatype jsval =
  JUndefined | JNull | JBool bool | JNum int | JStr string | JDate Date
  | JObj "(string \<times> jsval) list"

text \<open>Truthiness, as \<open>!state\<close> and \<open>x ? a : b\<close> test it.\<close>

fun truthy :: "jsval \<Rightarrow> bool" where
  "truthy JUndefined = False"
| "truthy JNull = False"
| "truthy (JBool b) = b"
| "truthy (JNum n) = (n \<noteq> 0)"
| "truthy (JStr s) = (s \<noteq> [])"
| "truthy (JDate d) = True"
| "truthy (JObj kvs) = True"

text \<open>\<open>typeof v === 'object'\<close>.\<close>

fun typeof_object :: "jsval \<Rightarrow> bool" where
  "typeof_object JNull = True"
| "typeof_object (JDate d) = True"
| "typeof_object (JObj kvs) = True"
| "typeof_object _ = False"

text \<open>
  \<open>prop in state\<close> and \<open>state.prop\<close>, for the property names of a persisted state
  (a \<open>Date\<close> object has none of them). They are only reached on truthy values of type
  object.
\<close>

fun has_prop :: "string \<Rightarrow> jsval \<Rightarrow> bool" where
  "has_prop prop (JObj kvs) = (map_of kvs prop \<noteq> None)"
| "has_prop prop _ = False"

fun get_prop :: "jsval \<Rightarrow> string \<Rightarrow> jsval" where
  "get_prop (JObj kvs) prop = (case map_of kvs prop of Some v \<Rightarrow> v | None \<Rightarrow> JUndefined)"
| "get_prop _ prop = JUndefined"

text \<open>
  \<open>new Date(v)\<close>. What cannot be read as a time gives the Invalid Date, without an
  exception. Reading a string is left to \<open>parse\<close>, the host's \<open>Date.parse\<close>, a
  parameter of the model; a number is a time value if it lies within
  \<open>\<plusminus>8.64e15\<close> milliseconds. A plain object is first converted to a
  primitive: the inherited \<open>valueOf\<close> gives the object back, so \<open>toString\<close> decides.
  The inherited \<open>toString\<close> gives the string \<open>[object Object]\<close>; a property
  \<open>toString\<close> of the object itself hides it, and as no stored value is a function the
  conversion then throws a \<open>TypeError\<close>.
\<close>

datatype js_error = TypeError

fun new_Date :: "(string \<Rightarrow> Date) \<Rightarrow> jsval \<Rightarrow> js_error + Date" where
  "new_Date parse (JDate d) = Inr d"
| "new_Date parse (JStr s) = Inr (parse s)"
| "new_Date parse (JNum n) = Inr (if \<bar>n\<bar> \<le> 8640000000000000 then Date n else InvalidDate)"
| "new_Date parse (JBool b) = Inr (Date (if b then 1 else 0))"
| "new_Date parse JNull = Inr (Date 0)"
| "new_Date parse JUndefined = Inr InvalidDate"
| "new_Date parse (JObj kvs) =
     (if map_of kvs ''toString'' \<noteq> None then Inl TypeError
      else Inr (parse ''[object Object]''))"

text \<open>The expression \<open>v ? new Date(v) : undefined\<close>.\<close>

definition optional_Date :: "(string \<Rightarrow> Date) \<Rightarrow> jsval \<Rightarrow> js_error + Date option" where
  "optional_Date parse v =
     (if truthy v
      then (case new_Date parse v of Inl e \<Rightarrow> Inl e | Inr d \<Rightarrow> Inr (Some d))
      else Inr None)"

text \<open>The string of each member of the enum \<open>TimerState\<close>, and \<open>Object.values(TimerState)\<close>.\<close>

fun tag :: "TimerState \<Rightarrow> string" where
  "tag IDLE = ''idle''"
| "tag WORK_SESSION = ''work_session''"
| "tag REST_PERIOD = ''rest_period''"
| "tag PAUSED = ''paused''"

definition TimerState_values :: "jsval list" where
  "TimerState_values = [JStr (tag IDLE), JStr (tag WORK_SESSION), JStr (tag REST_PERIOD), JStr (tag PAUSED)]"

text \<open>
  Reading a field at its TypeScript type. Both are applied only to fields that the
  validation has found to be a number, or a member of the enum (lemma \<open>valid_fields\<close>).
\<close>

fun the_num :: "jsval \<Rightarrow> int" where
  "the_num (JNum n) = n"
| "the_num _ = 0"

fun the_state :: "jsval \<Rightarrow> TimerState" where
  "the_state v =
     (if v = JStr (tag WORK_SESSION) then WORK_SESSION
      else if v = JStr (tag REST_PERIOD) then REST_PERIOD
      else if v = JStr (tag PAUSED) then PAUSED
      else IDLE)"

text \<open>An optional \<open>Date\<close> field as it is stored.\<close>

fun stored_date :: "Date option \<Rightarrow> jsval" where
  "stored_date None = JUndefined"
| "stored_date (Some d) = JDate d"

section \<open>Persistence (class StateManager)\<close>

text \<open>
  The store is the value under the key \<open>workSessionManager.timerState\<close>;
  \<open>update(key, undefined)\<close> removes it.
\<close>

definition saveState :: "int \<Rightarrow> TimerContext \<Rightarrow> int \<Rightarrow> int \<Rightarrow> jsval \<Rightarrow> jsval" where
  "saveState now timerContext sessionCount totalWorkTime store =
     JObj [(''currentState'', JStr (tag (currentState timerContext))),
           (''remainingTime'', JNum (remainingTime timerContext)),
           (''sessionStartTime'', stored_date (sessionStartTime timerContext)),
           (''lastActiveTime'', JDate (Date now)),
           (''sessionCount'', JNum sessionCount),
           (''totalWorkTime'', JNum totalWorkTime),
           (''sessionDuration'', JNum (sessionDuration timerContext)),
           (''restDuration'', JNum (restDuration timerContext))]"

definition clearState :: "jsval \<Rightarrow> jsval" where
  "clearState store = JUndefined"

definition requiredProps :: "string list" where
  "requiredProps = [''currentState'', ''remainingTime'', ''lastActiveTime'', ''sessionCount'',
                    ''totalWorkTime'', ''sessionDuration'', ''restDuration'']"

text \<open>
  The validation. Its last step builds the two dates inside a \<open>try\<close> block and returns
  false from the \<open>catch\<close>, that is, when \<open>new Date\<close> throws; the dates built are
  dropped, so a date that cannot be read (the Invalid Date) passes.
\<close>

definition isValidPersistedState :: "(string \<Rightarrow> Date) \<Rightarrow> jsval \<Rightarrow> bool" where
  "isValidPersistedState parse state =
     (if \<not> truthy state \<or> \<not> typeof_object state then False
      else if \<not> list_all (\<lambda>prop. has_prop prop state) requiredProps then False
      else if \<not> List.member TimerState_values (get_prop state ''currentState'') then False
      else if (case get_prop state ''remainingTime'' of JNum n \<Rightarrow> n < 0 | _ \<Rightarrow> True) then False
      else if (case get_prop state ''sessionDuration'' of JNum n \<Rightarrow> n < 1 \<or> n > 120 | _ \<Rightarrow> True)
        then False
      else if (case get_prop state ''restDuration'' of JNum n \<Rightarrow> n < 1 \<or> n > 60 | _ \<Rightarrow> True)
        then False
      else (case new_Date parse (get_prop state ''lastActiveTime'') of
              Inl e \<Rightarrow> False
            | Inr lastActive \<Rightarrow>
                (if truthy (get_prop state ''sessionStartTime'')
                 then (case new_Date parse (get_prop state ''sessionStartTime'') of
                         Inl e \<Rightarrow> False
                       | Inr sessionStart \<Rightarrow> True)
                 else True)))"

definition createIdleContext :: "int \<Rightarrow> int \<Rightarrow> TimerContext" where
  "createIdleContext sessionDuration' restDuration' =
     \<lparr>currentState = IDLE, remainingTime = 0,
      sessionDuration = sessionDuration', restDuration = restDuration',
      pausedAt = None, sessionStartTime = None\<rparr>"

definition createTimerContextFromPersisted ::
  "(string \<Rightarrow> Date) \<Rightarrow> int \<Rightarrow> jsval \<Rightarrow> js_error + TimerContext" where
  "createTimerContextFromPersisted parse now persistedState =
     (case optional_Date parse (get_prop persistedState ''sessionStartTime'') of
        Inl e \<Rightarrow> Inl e
      | Inr sessionStart \<Rightarrow>
          Inr \<lparr>currentState = the_state (get_prop persistedState ''currentState''),
               remainingTime = the_num (get_prop persistedState ''remainingTime''),
               sessionDuration = the_num (get_prop persistedState ''sessionDuration''),
               restDuration = the_num (get_prop persistedState ''restDuration''),
               pausedAt = (if get_prop persistedState ''currentState'' = JStr (tag PAUSED)
                           then Some (Date now) else None),
               sessionStartTime = sessionStart\<rparr>)"

definition handleExpiredSession :: "int \<Rightarrow> jsval \<Rightarrow> int \<Rightarrow> TimerContext" where
  "handleExpiredSession now persistedState timeDifference =
     (let sessionDurationSeconds = the_num (get_prop persistedState ''sessionDuration'') * 60;
          restDurationSeconds = the_num (get_prop persistedState ''restDuration'') * 60
      in if get_prop persistedState ''currentState'' = JStr (tag WORK_SESSION) then
           (let timeAfterWorkSession =
                  timeDifference - the_num (get_prop persistedState ''remainingTime'')
            in if timeAfterWorkSession \<ge> restDurationSeconds
               then createIdleContext (the_num (get_prop persistedState ''sessionDuration''))
                                      (the_num (get_prop persistedState ''restDuration''))
               else (let remainingRestTime = restDurationSeconds - timeAfterWorkSession
                     in \<lparr>currentState = REST_PERIOD, remainingTime = remainingRestTime,
                         sessionDuration = the_num (get_prop persistedState ''sessionDuration''),
                         restDuration = the_num (get_prop persistedState ''restDuration''),
                         pausedAt = None,
                         sessionStartTime = Some (Date (now - timeAfterWorkSession * 1000))\<rparr>))
         else if get_prop persistedState ''currentState'' = JStr (tag REST_PERIOD) then
           createIdleContext (the_num (get_prop persistedState ''sessionDuration''))
                             (the_num (get_prop persistedState ''restDuration''))
         else createIdleContext (the_num (get_prop persistedState ''sessionDuration''))
                                (the_num (get_prop persistedState ''restDuration'')))"

text \<open>
  What a call of \<open>restoreState\<close> ends in: \<open>null\<close>, a context, a context whose
  \<open>remainingTime\<close> is NaN, or an exception. The context with NaN comes from a record
  in a running phase whose \<open>lastActiveTime\<close> reads as the Invalid Date: the time
  difference is then NaN, so is the adjusted remaining time, and \<open>NaN <= 0\<close> is
  false. Its arguments are the other fields of that context: \<open>currentState\<close>,
  \<open>sessionDuration\<close>, \<open>restDuration\<close> and \<open>sessionStartTime\<close>. An exception
  can only come from \<open>new Date\<close>; the validation that runs first excludes it (lemma
  \<open>restoreState_no_exception\<close>).
\<close>

datatype RestoreResult =
  Null | Restored TimerContext | RestoredNaN TimerState int int "Date option"
  | Throws js_error

text \<open>
  \<open>restoreState\<close> returns its result together with the store it leaves. \<open>now\<close> is the
  clock in milliseconds, read once for the whole call (\<open>new Date()\<close> and \<open>Date.now()\<close>
  give the same instant); the time difference in seconds is rounded down.
\<close>

definition restoreState :: "(string \<Rightarrow> Date) \<Rightarrow> int \<Rightarrow> jsval \<Rightarrow> RestoreResult \<times> jsval" where
  "restoreState parse now store =
     (let persistedState = store
      in if \<not> truthy persistedState then (Null, store)
         else if \<not> isValidPersistedState parse persistedState then (Null, clearState store)
         else
           (case new_Date parse (get_prop persistedState ''lastActiveTime'') of
              Inl e \<Rightarrow> (Throws e, store)
            | Inr lastActiveTime \<Rightarrow>
           (let timeDifference = (case lastActiveTime of
                                    Date t \<Rightarrow> Some ((now - t) div 1000)
                                  | InvalidDate \<Rightarrow> None)
            in if get_prop persistedState ''currentState'' = JStr (tag IDLE)
                  \<or> get_prop persistedState ''currentState'' = JStr (tag PAUSED)
               then (case createTimerContextFromPersisted parse now persistedState of
                       Inl e \<Rightarrow> (Throws e, store)
                     | Inr restoredContext \<Rightarrow> (Restored restoredContext, store))
               else
                 (case timeDifference of
                    None \<Rightarrow>
                      (case optional_Date parse (get_prop persistedState ''sessionStartTime'') of
                         Inl e \<Rightarrow> (Throws e, store)
                       | Inr sessionStart \<Rightarrow>
                           (RestoredNaN (the_state (get_prop persistedState ''currentState''))
                                        (the_num (get_prop persistedState ''sessionDuration''))
                                        (the_num (get_prop persistedState ''restDuration''))
                                        sessionStart, store))
                  | Some timeDifference' \<Rightarrow>
                      (let adjustedRemainingTime =
                             max 0 (the_num (get_prop persistedState ''remainingTime'') - timeDifference')
                       in if adjustedRemainingTime \<le> 0
                          then (Restored (handleExpiredSession now persistedState timeDifference'), store)
                          else
                            (case optional_Date parse (get_prop persistedState ''sessionStartTime'') of
                               Inl e \<Rightarrow> (Throws e, store)
                             | Inr sessionStart \<Rightarrow>
                                 (Restored
                                    \<lparr>currentState = the_state (get_prop persistedState ''currentState''),
                                     remainingTime = adjustedRemainingTime,
                                     sessionDuration = the_num (get_prop persistedState ''sessionDuration''),
                                     restDuration = the_num (get_prop persistedState ''restDuration''),
                                     pausedAt = None,
                                     sessionStartTime = sessionStart\<rparr>, store)))))))"

text \<open>
  A \<open>parse\<close> that reads no string as a date. It serves in the examples, where the
  stored dates are \<open>Date\<close> objects or strings that no parser accepts.
\<close>

definition no_parse :: "string \<Rightarrow> Date" where
  "no_parse s = InvalidDate"

text \<open>
  A \<open>parse\<close> that reads the ISO string of the epoch and of one second after it, and no
  other string; for the examples whose record has come back from storage with its dates
  as strings.
\<close>

definition epoch_parse :: "string \<Rightarrow> Date" where
  "epoch_parse s =
     (if s = ''1970-01-01T00:00:00.000Z'' then Date 0
      else if s = ''1970-01-01T00:00:01.000Z'' then Date 1000
      else InvalidDate)"

section \<open>Basic facts about the engine\<close>

lemmas engine_defs = startSession_def startRest_def pause_def resume_def reset_def
  handleTimerCompletion_def updateDurations_def tick_def emitStateChange_def
  startTimer_def stopTimer_def constructor_def

lemma run_snoc: "run m (ops @ [op]) = perform (run m ops) op"
  by (simp add: run_def)

lemma ctx_emitStateChange [simp]: "ctx (emitStateChange b m) = ctx m"
  by (simp add: emitStateChange_def Let_def)

lemma intervalId_emitStateChange [simp]: "intervalId (emitStateChange b m) = intervalId m"
  by (simp add: emitStateChange_def Let_def)

lemma completions_append: "completions (xs @ ys) = completions xs @ completions ys"
  by (induction xs rule: completions.induct) simp_all

lemma completions_emitStateChange:
  "completions (emitted (emitStateChange b m)) =
     completions (emitted m)
     @ (if b then [TimerEventData (currentState (ctx m)) (remainingTime (ctx m)) True] else [])"
  by (simp add: emitStateChange_def Let_def completions_append)

subsection \<open>Pause and resume\<close>

lemma resume_not_paused: "currentState (ctx m) \<noteq> PAUSED \<Longrightarrow> resume m = m"
  by (simp add: resume_def)

lemma pause_resume_work_session:
  assumes "currentState (ctx m) = WORK_SESSION" and "sessionStartTime (ctx m) \<noteq> None"
    and "0 < remainingTime (ctx m)"
  shows "currentState (ctx (resume (pause now m))) = WORK_SESSION
         \<and> remainingTime (ctx (resume (pause now m))) = remainingTime (ctx m)"
  using assms by (simp add: pause_def resume_def stopTimer_def startTimer_def Let_def)

lemma pause_resume_rest_period:
  assumes "currentState (ctx m) = REST_PERIOD" and "sessionStartTime (ctx m) \<noteq> None"
    and "0 < remainingTime (ctx m)"
  shows "currentState (ctx (resume (pause now m))) = WORK_SESSION
         \<and> remainingTime (ctx (resume (pause now m))) = remainingTime (ctx m)"
  using assms by (simp add: pause_def resume_def stopTimer_def startTimer_def Let_def)

text \<open>
  Claim C1: resuming an engine that was paused from phase P (work session or rest period)
  with time remaining goes back to phase P with the same remaining time. The engine
  built with durations 25 and 5 is started on a rest period, paused and resumed:
  the rest period of 300 seconds comes back as a work session of 300 seconds, because
  \<open>startRest\<close> sets \<open>sessionStartTime\<close> as \<open>startSession\<close> does and \<open>resume\<close> takes a set
  \<open>sessionStartTime\<close> for a work session.
\<close>

theorem resume_after_paused_rest_is_work_session:
  "currentState (ctx (run (constructor 25 5) [StartRest 0])) = REST_PERIOD
   \<and> remainingTime (ctx (run (constructor 25 5) [StartRest 0])) = 300
   \<and> currentState (ctx (run (constructor 25 5) [StartRest 0, Pause 1000])) = PAUSED
   \<and> currentState (ctx (run (constructor 25 5) [StartRest 0, Pause 1000, Resume])) = WORK_SESSION
   \<and> remainingTime (ctx (run (constructor 25 5) [StartRest 0, Pause 1000, Resume])) = 300"
  by (simp add: run_def engine_defs Let_def)

subsection \<open>Ticking\<close>

lemma tick_positive:
  "0 < remainingTime (ctx m) \<Longrightarrow>
   ctx (tick m) = (ctx m)\<lparr>remainingTime := remainingTime (ctx m) - 1\<rparr> \<and>
   intervalId (tick m) = intervalId m \<and>
   completions (emitted (tick m)) = completions (emitted m)"
  by (simp add: tick_def completions_emitStateChange)

text \<open>
  Ticking \<open>n\<close> times with at least \<open>n\<close> seconds remaining takes exactly \<open>n\<close> seconds
  off, changes nothing else in the context, and emits no completion.
\<close>

lemma tick_funpow:
  "int n \<le> remainingTime (ctx m) \<Longrightarrow>
   ctx ((tick ^^ n) m) = (ctx m)\<lparr>remainingTime := remainingTime (ctx m) - int n\<rparr> \<and>
   intervalId ((tick ^^ n) m) = intervalId m \<and>
   completions (emitted ((tick ^^ n) m)) = completions (emitted m)"
proof (induction n)
  case 0
  show ?case by simp
next
  case (Suc n)
  then have ih:
    "ctx ((tick ^^ n) m) = (ctx m)\<lparr>remainingTime := remainingTime (ctx m) - int n\<rparr>"
    "intervalId ((tick ^^ n) m) = intervalId m"
    "completions (emitted ((tick ^^ n) m)) = completions (emitted m)"
    by simp_all
  from Suc.prems have pos: "0 < remainingTime (ctx ((tick ^^ n) m))"
    by (simp add: ih)
  show ?case using tick_positive [OF pos] ih by simp
qed

lemma tick_expiry: "remainingTime (ctx m) = 0 \<Longrightarrow> tick m = handleTimerCompletion m"
  by (simp add: tick_def)

lemma handleTimerCompletion_work_session:
  "currentState (ctx m) = WORK_SESSION \<Longrightarrow>
   currentState (ctx (handleTimerCompletion m)) = IDLE \<and>
   remainingTime (ctx (handleTimerCompletion m)) = 0 \<and>
   sessionStartTime (ctx (handleTimerCompletion m)) = None \<and>
   \<not> intervalId (handleTimerCompletion m) \<and>
   completions (emitted (handleTimerCompletion m)) =
     completions (emitted m) @ [TimerEventData WORK_SESSION (remainingTime (ctx m)) True]"
  by (simp add: handleTimerCompletion_def Let_def completions_emitStateChange stopTimer_def)

text \<open>
  A work session with \<open>r\<close> seconds remaining is still a work session, at 0 seconds and
  with no completion emitted, after \<open>r\<close> ticks; the tick after that one completes it.
\<close>

lemma tick_remaining_times:
  assumes "currentState (ctx m) = WORK_SESSION" and "remainingTime (ctx m) = int r"
  shows "currentState (ctx ((tick ^^ r) m)) = WORK_SESSION
         \<and> remainingTime (ctx ((tick ^^ r) m)) = 0
         \<and> completions (emitted ((tick ^^ r) m)) = completions (emitted m)"
  using assms tick_funpow [of r m] by simp

lemma tick_once_more_completes:
  assumes "currentState (ctx m) = WORK_SESSION" and "remainingTime (ctx m) = int r"
  shows "currentState (ctx ((tick ^^ Suc r) m)) = IDLE
         \<and> remainingTime (ctx ((tick ^^ Suc r) m)) = 0
         \<and> completions (emitted ((tick ^^ Suc r) m)) =
             completions (emitted m) @ [TimerEventData WORK_SESSION 0 True]"
proof -
  let ?m = "(tick ^^ r) m"
  have r: "currentState (ctx ?m) = WORK_SESSION" "remainingTime (ctx ?m) = 0"
    "completions (emitted ?m) = completions (emitted m)"
    using tick_remaining_times [OF assms] by simp_all
  have "(tick ^^ Suc r) m = handleTimerCompletion ?m"
    using tick_expiry [OF r(2)] by simp
  then show ?thesis
    using handleTimerCompletion_work_session [OF r(1)] r by simp
qed

text \<open>
  Claim C3: in a work session with \<open>r\<close> seconds remaining, \<open>n < r\<close> ticks take \<open>n\<close>
  seconds off and keep the work session (lemma \<open>tick_funpow\<close>), and exactly \<open>r\<close>
  ticks end in the idle phase with one completion notification tagged as a work
  session. The second half is evaluated on a one-minute work session: after 60 ticks the
  engine is still in the work session, at 0 seconds, and has emitted no completion; the
  completion comes with tick 61. (\<open>updateDurations\<close>, for comparison, completes a phase
  as soon as its remaining time becomes 0.)
\<close>

theorem tick_sixty_times_not_complete:
  "remainingTime (ctx (startSession 0 (constructor 1 5))) = 60
   \<and> currentState (ctx ((tick ^^ 60) (startSession 0 (constructor 1 5)))) = WORK_SESSION
   \<and> remainingTime (ctx ((tick ^^ 60) (startSession 0 (constructor 1 5)))) = 0
   \<and> completions (emitted ((tick ^^ 60) (startSession 0 (constructor 1 5)))) = []
   \<and> currentState (ctx ((tick ^^ Suc 60) (startSession 0 (constructor 1 5)))) = IDLE
   \<and> completions (emitted ((tick ^^ Suc 60) (startSession 0 (constructor 1 5))))
       = [TimerEventData WORK_SESSION 0 True]"
proof -
  let ?m = "startSession 0 (constructor 1 5)"
  have w: "currentState (ctx ?m) = WORK_SESSION" and r: "remainingTime (ctx ?m) = int 60"
    and e: "completions (emitted ?m) = []"
    by (simp_all add: engine_defs Let_def)
  show ?thesis
    using tick_remaining_times [OF w r] tick_once_more_completes [OF w r] r e
    by (simp del: funpow.simps)
qed

subsection \<open>The start time of the phase\<close>

text \<open>
  Claim C4, as stated: every operation keeps \<open>sessionStartTime\<close> set exactly when the
  phase is a work session or a rest period, so that it is unset whenever the engine is
  idle or paused. Pausing breaks it: \<open>pause\<close> changes the phase and \<open>pausedAt\<close> only,
  so the paused engine still holds the start time (which \<open>resume\<close> reads).
\<close>

theorem pause_keeps_sessionStartTime_counterexample:
  "currentState (ctx (startSession 0 (constructor 25 5))) = WORK_SESSION
   \<and> sessionStartTime (ctx (startSession 0 (constructor 25 5))) = Some (Date 0)
   \<and> currentState (ctx (pause 1000 (startSession 0 (constructor 25 5)))) = PAUSED
   \<and> sessionStartTime (ctx (pause 1000 (startSession 0 (constructor 25 5)))) = Some (Date 0)"
  by (simp add: engine_defs Let_def)

text \<open>
  Claim C4, amended: every operation preserves that \<open>sessionStartTime\<close> is set whenever
  the phase is not idle (work session, rest period or paused); and every operation other
  than \<open>resume\<close> preserves that it is unset whenever the phase is idle.
\<close>

theorem sessionStartTime_set_unless_idle:
  "(currentState (ctx m) \<noteq> IDLE \<longrightarrow> sessionStartTime (ctx m) \<noteq> None) \<Longrightarrow>
   (currentState (ctx (perform m op)) \<noteq> IDLE \<longrightarrow> sessionStartTime (ctx (perform m op)) \<noteq> None)
   \<and> (op \<noteq> Resume \<longrightarrow>
        (currentState (ctx m) = IDLE \<longrightarrow> sessionStartTime (ctx m) = None) \<longrightarrow>
        (currentState (ctx (perform m op)) = IDLE \<longrightarrow> sessionStartTime (ctx (perform m op)) = None))"
  by (cases op) (auto simp add: engine_defs Let_def)

theorem sessionStartTime_set_unless_idle_witness:
  "currentState (ctx (startSession 0 (constructor 25 5))) = WORK_SESSION
   \<and> sessionStartTime (ctx (startSession 0 (constructor 25 5))) = Some (Date 0)
   \<and> currentState (ctx (perform (startSession 0 (constructor 25 5)) (Pause 1000))) = PAUSED
   \<and> sessionStartTime (ctx (perform (startSession 0 (constructor 25 5)) (Pause 1000))) \<noteq> None
   \<and> currentState (ctx (perform (startSession 0 (constructor 25 5)) Reset)) = IDLE
   \<and> sessionStartTime (ctx (perform (startSession 0 (constructor 25 5)) Reset)) = None
   \<and> currentState (ctx (constructor 25 5)) = IDLE
   \<and> sessionStartTime (ctx (constructor 25 5)) = None
   \<and> currentState (ctx (perform (constructor 25 5) (UpdateDurations 30 10))) = IDLE
   \<and> sessionStartTime (ctx (perform (constructor 25 5) (UpdateDurations 30 10))) = None"
  using sessionStartTime_set_unless_idle [of "startSession 0 (constructor 25 5)" "Pause 1000"]
    sessionStartTime_set_unless_idle [of "startSession 0 (constructor 25 5)" Reset]
    sessionStartTime_set_unless_idle [of "constructor 25 5" "UpdateDurations 30 10"]
  by (simp add: engine_defs Let_def)

subsection \<open>Changing the durations\<close>

text \<open>
  What \<open>updateDurations\<close> does in each phase, for a remaining time that is not
  negative. In a work session or rest period the remaining time becomes
  \<open>max 0 (new duration * 60 - elapsed)\<close> with
  \<open>elapsed = old duration * 60 - old remaining\<close>, and where the duration has changed
  a result of 0 goes to \<open>handleTimerCompletion\<close>, the handler \<open>tick\<close> calls at a
  natural expiry (lemma \<open>tick_expiry\<close>). While paused, the phase is guessed from the
  remaining time.
\<close>

lemma updateDurations_rescales:
  assumes "0 \<le> remainingTime (ctx m)"
  shows "updateDurations s r m =
     (let elapsedWork = sessionDuration (ctx m) * 60 - remainingTime (ctx m);
          elapsedRest = restDuration (ctx m) * 60 - remainingTime (ctx m);
          stored = m\<lparr>ctx := (ctx m)\<lparr>sessionDuration := s, restDuration := r\<rparr>\<rparr>;
          asWork = stored\<lparr>ctx := (ctx stored)\<lparr>remainingTime := max 0 (s * 60 - elapsedWork)\<rparr>\<rparr>;
          asRest = stored\<lparr>ctx := (ctx stored)\<lparr>remainingTime := max 0 (r * 60 - elapsedRest)\<rparr>\<rparr>
      in case currentState (ctx m) of
           IDLE \<Rightarrow> stored
         | WORK_SESSION \<Rightarrow>
             if sessionDuration (ctx m) \<noteq> s \<and> max 0 (s * 60 - elapsedWork) = 0
             then handleTimerCompletion asWork else emitStateChange False asWork
         | REST_PERIOD \<Rightarrow>
             if restDuration (ctx m) \<noteq> r \<and> max 0 (r * 60 - elapsedRest) = 0
             then handleTimerCompletion asRest else emitStateChange False asRest
         | PAUSED \<Rightarrow>
             if remainingTime (ctx m) > restDuration (ctx m) * 60
             then emitStateChange False asWork else emitStateChange False asRest)"
  using assms
  by (cases "currentState (ctx m)") (simp_all add: updateDurations_def Let_def max_def)

text \<open>
  An instance that ends the phase: 20 of 25 minutes of a work session have elapsed when
  the session duration is cut to 10 minutes.
\<close>

lemma updateDurations_completes_example:
  "currentState (ctx (updateDurations 10 5
       \<lparr>ctx = \<lparr>currentState = WORK_SESSION, remainingTime = 300, sessionDuration = 25,
                restDuration = 5, pausedAt = None, sessionStartTime = Some (Date 0)\<rparr>,
        intervalId = True, emitted = []\<rparr>)) = IDLE
   \<and> completions (emitted (updateDurations 10 5
       \<lparr>ctx = \<lparr>currentState = WORK_SESSION, remainingTime = 300, sessionDuration = 25,
                restDuration = 5, pausedAt = None, sessionStartTime = Some (Date 0)\<rparr>,
        intervalId = True, emitted = []\<rparr>)) = [TimerEventData WORK_SESSION 0 True]"
  by (simp add: engine_defs Let_def)

text \<open>
  Claim C6: \<open>updateDurations\<close> rescales the remaining time of the running phase to
  \<open>max 0 (new duration * 60 - elapsed)\<close>, completes the phase when the result is 0,
  and while paused applies the same rescaling for the phase that was paused. The last
  part is evaluated on a one-minute work session paused at 60 seconds, with a rest
  duration of 5 minutes. The engine takes it for a rest period, as 60 does not exceed the
  300 seconds of the old rest duration. Raising the session duration to 2 minutes leaves
  the remaining time at 60, where the formula for a work session gives
  \<open>max 0 (2 * 60 - (1 * 60 - 60)) = 120\<close>. Changing the rest duration to 4 minutes,
  with the session duration as it was, takes the remaining time of the work session to
  \<open>max 0 (4 * 60 - (5 * 60 - 60)) = 0\<close>; the engine stays paused, and \<open>resume\<close> then
  goes idle with no completion emitted.
\<close>

theorem updateDurations_paused_work_session_taken_for_rest:
  "currentState (ctx (run (constructor 1 5) [StartSession 0])) = WORK_SESSION
   \<and> currentState (ctx (run (constructor 1 5) [StartSession 0, Pause 1000])) = PAUSED
   \<and> remainingTime (ctx (run (constructor 1 5) [StartSession 0, Pause 1000])) = 60
   \<and> remainingTime (ctx (run (constructor 1 5) [StartSession 0, Pause 1000, UpdateDurations 2 5])) = 60
   \<and> max 0 (2 * 60 - (1 * 60 - 60)) = (120::int)
   \<and> currentState (ctx (run (constructor 1 5) [StartSession 0, Pause 1000, UpdateDurations 1 4])) = PAUSED
   \<and> remainingTime (ctx (run (constructor 1 5) [StartSession 0, Pause 1000, UpdateDurations 1 4])) = 0
   \<and> currentState (ctx (run (constructor 1 5) [StartSession 0, Pause 1000, UpdateDurations 1 4, Resume])) = IDLE
   \<and> completions (emitted (run (constructor 1 5) [StartSession 0, Pause 1000, UpdateDurations 1 4, Resume])) = []"
  by (simp add: run_def engine_defs Let_def)

subsection \<open>The bounds of the durations\<close>

text \<open>
  Only \<open>updateDurations\<close> changes the durations, and it stores what it is given.
\<close>

lemma perform_durations:
  "sessionDuration (ctx (perform m op))
     = (case op of UpdateDurations s r \<Rightarrow> s | _ \<Rightarrow> sessionDuration (ctx m))
   \<and> restDuration (ctx (perform m op))
     = (case op of UpdateDurations s r \<Rightarrow> r | _ \<Rightarrow> restDuration (ctx m))"
  by (cases op) (auto simp add: engine_defs Let_def)

text \<open>
  The durations therefore stay within the bounds as long as the host passes durations
  within the bounds to the constructor and to every \<open>updateDurations\<close>.
\<close>

lemma run_in_bounds:
  "1 \<le> s0 \<and> s0 \<le> 120 \<and> 1 \<le> r0 \<and> r0 \<le> 60 \<Longrightarrow> list_all op_in_bounds ops \<Longrightarrow>
   1 \<le> sessionDuration (ctx (run (constructor s0 r0) ops))
   \<and> sessionDuration (ctx (run (constructor s0 r0) ops)) \<le> 120
   \<and> 1 \<le> restDuration (ctx (run (constructor s0 r0) ops))
   \<and> restDuration (ctx (run (constructor s0 r0) ops)) \<le> 60"
proof (induction ops rule: rev_induct)
  case Nil
  then show ?case by (simp add: run_def constructor_def)
next
  case (snoc op ops)
  then show ?case
    using perform_durations [of "run (constructor s0 r0) ops" op]
    by (cases op) (simp_all add: run_snoc)
qed

text \<open>
  Claim C9: in every state reached through the public operations the session duration
  lies within 1 to 120 and the rest duration within 1 to 60; the durations change only in
  \<open>updateDurations\<close>, which clamps a duration outside the bounds to the nearest bound.
  The second part holds (lemma \<open>perform_durations\<close>). The first and the last are
  evaluated on the engine built with durations -1 and 0, as the test
  \<open>Should handle timer manager errors gracefully\<close> builds it, and on
  \<open>updateDurations 500 0\<close>: the durations are kept as given, and the work session
  started on the first engine has -60 seconds remaining.
\<close>

theorem durations_not_sanitised:
  "sessionDuration (ctx (run (constructor (- 1) 0) [StartSession 0])) = - 1
   \<and> restDuration (ctx (run (constructor (- 1) 0) [StartSession 0])) = 0
   \<and> remainingTime (ctx (run (constructor (- 1) 0) [StartSession 0])) = - 60
   \<and> sessionDuration (ctx (run (constructor 25 5) [UpdateDurations 500 0])) = 500
   \<and> restDuration (ctx (run (constructor 25 5) [UpdateDurations 500 0])) = 0"
  by (simp add: run_def engine_defs Let_def)

subsection \<open>Resuming with no time left\<close>

lemma reachable_paused:
  "(currentState (ctx (run (constructor s0 r0) ops)) = PAUSED
      \<longrightarrow> pausedAt (ctx (run (constructor s0 r0) ops)) \<noteq> None) \<and>
   (intervalId (run (constructor s0 r0) ops)
      \<longrightarrow> currentState (ctx (run (constructor s0 r0) ops)) = WORK_SESSION
          \<or> currentState (ctx (run (constructor s0 r0) ops)) = REST_PERIOD)"
proof (induction ops rule: rev_induct)
  case Nil
  show ?case by (simp add: run_def constructor_def)
next
  case (snoc op ops)
  then show ?case
    unfolding run_snoc
    by (cases op) (auto simp add: engine_defs Let_def)
qed

text \<open>
  Claim C10: in a state reached from the constructor that is paused with 0 seconds
  remaining, \<open>resume\<close> goes to the idle phase, leaves the remaining time at 0 and
  schedules no interval.
\<close>

theorem resume_paused_at_zero:
  assumes "currentState (ctx (run (constructor s0 r0) ops)) = PAUSED"
    and "remainingTime (ctx (run (constructor s0 r0) ops)) = 0"
  shows "currentState (ctx (resume (run (constructor s0 r0) ops))) = IDLE
         \<and> remainingTime (ctx (resume (run (constructor s0 r0) ops))) = 0
         \<and> \<not> intervalId (resume (run (constructor s0 r0) ops))"
  using assms reachable_paused [of s0 r0 ops]
  by (simp add: resume_def Let_def)

theorem resume_paused_at_zero_witness:
  "currentState (ctx (run (constructor 1 5) [StartSession 0, Pause 1000, UpdateDurations 1 4])) = PAUSED
   \<and> remainingTime (ctx (run (constructor 1 5) [StartSession 0, Pause 1000, UpdateDurations 1 4])) = 0
   \<and> currentState (ctx (resume (run (constructor 1 5) [StartSession 0, Pause 1000, UpdateDurations 1 4]))) = IDLE
   \<and> remainingTime (ctx (resume (run (constructor 1 5) [StartSession 0, Pause 1000, UpdateDurations 1 4]))) = 0
   \<and> \<not> intervalId (resume (run (constructor 1 5) [StartSession 0, Pause 1000, UpdateDurations 1 4]))"
proof -
  have p: "currentState (ctx (run (constructor 1 5) [StartSession 0, Pause 1000, UpdateDurations 1 4])) = PAUSED"
    and z: "remainingTime (ctx (run (constructor 1 5) [StartSession 0, Pause 1000, UpdateDurations 1 4])) = 0"
    by (simp_all add: run_def engine_defs Let_def)
  show ?thesis using resume_paused_at_zero [OF p z] p z by simp
qed

section \<open>Facts about persistence\<close>

lemmas persist_defs = restoreState_def isValidPersistedState_def requiredProps_def
  TimerState_values_def createTimerContextFromPersisted_def handleExpiredSession_def
  createIdleContext_def saveState_def clearState_def optional_Date_def

lemma the_state_tag [simp]: "the_state (JStr (tag cs)) = cs"
  by (cases cs) simp_all

lemma tag_inject [simp]: "(tag a = tag b) = (a = b)"
  by (cases a; cases b) simp_all

text \<open>What the validation establishes about the fields that are read as numbers and phase.\<close>

lemma valid_fields:
  assumes "isValidPersistedState parse ps"
  shows "truthy ps \<and> (\<exists>cs r sd rd.
           get_prop ps ''currentState'' = JStr (tag cs)
         \<and> get_prop ps ''remainingTime'' = JNum r \<and> 0 \<le> r
         \<and> get_prop ps ''sessionDuration'' = JNum sd \<and> 1 \<le> sd \<and> sd \<le> 120
         \<and> get_prop ps ''restDuration'' = JNum rd \<and> 1 \<le> rd \<and> rd \<le> 60)"
proof -
  from assms have t: "truthy ps"
    and m: "List.member TimerState_values (get_prop ps ''currentState'')"
    and r: "\<not> (case get_prop ps ''remainingTime'' of JNum n \<Rightarrow> n < 0 | _ \<Rightarrow> True)"
    and s: "\<not> (case get_prop ps ''sessionDuration'' of JNum n \<Rightarrow> n < 1 \<or> n > 120 | _ \<Rightarrow> True)"
    and d: "\<not> (case get_prop ps ''restDuration'' of JNum n \<Rightarrow> n < 1 \<or> n > 60 | _ \<Rightarrow> True)"
    by (simp_all add: isValidPersistedState_def split: if_splits)
  from m have "get_prop ps ''currentState'' = JStr (tag IDLE)
      \<or> get_prop ps ''currentState'' = JStr (tag WORK_SESSION)
      \<or> get_prop ps ''currentState'' = JStr (tag REST_PERIOD)
      \<or> get_prop ps ''currentState'' = JStr (tag PAUSED)"
    by (simp add: TimerState_values_def del: tag.simps)
  then obtain cs where "get_prop ps ''currentState'' = JStr (tag cs)"
    by blast
  moreover from r obtain rv where "get_prop ps ''remainingTime'' = JNum rv" "0 \<le> rv"
    by (cases "get_prop ps ''remainingTime''") auto
  moreover from s obtain sd where "get_prop ps ''sessionDuration'' = JNum sd" "1 \<le> sd" "sd \<le> 120"
    by (cases "get_prop ps ''sessionDuration''") auto
  moreover from d obtain rd where "get_prop ps ''restDuration'' = JNum rd" "1 \<le> rd" "rd \<le> 60"
    by (cases "get_prop ps ''restDuration''") auto
  ultimately show ?thesis using t by blast
qed

text \<open>
  What it establishes about the two dates: building them does not throw. It says nothing
  on whether they can be read.
\<close>

lemma valid_dates:
  assumes "isValidPersistedState parse ps"
  shows "(\<exists>d. new_Date parse (get_prop ps ''lastActiveTime'') = Inr d)
         \<and> (\<exists>start. optional_Date parse (get_prop ps ''sessionStartTime'') = Inr start)"
  using assms
  by (simp add: isValidPersistedState_def optional_Date_def split: if_splits sum.splits)

text \<open>The validation does not depend on how strings are read as dates.\<close>

lemma new_Date_throws_any_parse:
  "(new_Date parse v = Inl e) = (new_Date parse' v = Inl e)"
  by (cases v) simp_all

lemma isValidPersistedState_any_parse:
  "isValidPersistedState parse ps = isValidPersistedState parse' ps"
proof -
  have c: "(\<exists>e. new_Date parse v = Inl e) = (\<exists>e. new_Date parse' v = Inl e)" for v
    by (cases v) simp_all
  show ?thesis
    using c [of "get_prop ps ''lastActiveTime''"] c [of "get_prop ps ''sessionStartTime''"]
    by (auto simp add: isValidPersistedState_def split: sum.splits)
qed

text \<open>No call of \<open>restoreState\<close> ends in an exception.\<close>

lemma restoreState_no_exception: "fst (restoreState parse now store) \<noteq> Throws e"
proof (cases "truthy store \<and> isValidPersistedState parse store")
  case False
  then show ?thesis by (auto simp add: restoreState_def)
next
  case True
  then have v: "isValidPersistedState parse store" by simp
  from valid_dates [OF v] obtain d start
    where "new_Date parse (get_prop store ''lastActiveTime'') = Inr d"
      and "optional_Date parse (get_prop store ''sessionStartTime'') = Inr start"
    by blast
  with True show ?thesis
    by (simp add: restoreState_def createTimerContextFromPersisted_def Let_def
             split: option.splits Date.splits)
qed

subsection \<open>Records that are missing or rejected\<close>

lemma restoreState_nothing_stored: "restoreState parse now JUndefined = (Null, JUndefined)"
  by (simp add: restoreState_def)

text \<open>
  A stored value that the validation rejects gives \<open>null\<close> and is erased, and the next
  \<open>restoreState\<close> gives \<open>null\<close> again.
\<close>

lemma restoreState_rejected:
  assumes "truthy ps" and "\<not> isValidPersistedState parse ps"
  shows "restoreState parse now ps = (Null, JUndefined)"
    and "restoreState parse now' (snd (restoreState parse now ps)) = (Null, JUndefined)"
  using assms by (simp_all add: restoreState_def clearState_def)

text \<open>
  The one kind of date that the validation rejects: an object on which \<open>new Date\<close>
  throws, here \<open>{toString: 1}\<close> as \<open>lastActiveTime\<close>.
\<close>

lemma throwing_lastActiveTime_rejected:
  "restoreState parse now
     (JObj [(''currentState'', JStr ''idle''), (''remainingTime'', JNum 0),
            (''lastActiveTime'', JObj [(''toString'', JNum 1)]), (''sessionCount'', JNum 0),
            (''totalWorkTime'', JNum 0), (''sessionDuration'', JNum 25),
            (''restDuration'', JNum 5)])
   = (Null, JUndefined)"
  by (simp add: persist_defs Let_def)

text \<open>
  Claim C5: \<open>restoreState\<close> returns \<open>null\<close> when nothing is stored or when the stored
  record fails the validation, which is to reject an unknown phase, durations or a
  remaining time that are not numbers or are out of range, and timestamps that cannot be
  read; a rejected record is erased. The first two kinds are rejected (lemmas
  \<open>valid_fields\<close>, \<open>restoreState_rejected\<close>). The last is evaluated on an idle record
  whose \<open>lastActiveTime\<close> is a string that is no date: \<open>new Date\<close> gives the Invalid
  Date for it and does not throw, so it passes the validation, the record is returned as
  an idle context, and it stays in the store.
\<close>

theorem unparsable_lastActiveTime_is_restored:
  "new_Date no_parse (JStr ''not a date'') = Inr InvalidDate
   \<and> isValidPersistedState no_parse
       (JObj [(''currentState'', JStr ''idle''), (''remainingTime'', JNum 0),
              (''lastActiveTime'', JStr ''not a date''), (''sessionCount'', JNum 0),
              (''totalWorkTime'', JNum 0), (''sessionDuration'', JNum 25),
              (''restDuration'', JNum 5)])
   \<and> restoreState no_parse 5000
       (JObj [(''currentState'', JStr ''idle''), (''remainingTime'', JNum 0),
              (''lastActiveTime'', JStr ''not a date''), (''sessionCount'', JNum 0),
              (''totalWorkTime'', JNum 0), (''sessionDuration'', JNum 25),
              (''restDuration'', JNum 5)])
     = (Restored \<lparr>currentState = IDLE, remainingTime = 0, sessionDuration = 25,
                  restDuration = 5, pausedAt = None, sessionStartTime = None\<rparr>,
        JObj [(''currentState'', JStr ''idle''), (''remainingTime'', JNum 0),
              (''lastActiveTime'', JStr ''not a date''), (''sessionCount'', JNum 0),
              (''totalWorkTime'', JNum 0), (''sessionDuration'', JNum 25),
              (''restDuration'', JNum 5)])"
  by (simp add: persist_defs no_parse_def Let_def)

text \<open>In particular the result is not \<open>null\<close> and the store is not emptied.\<close>

theorem unparsable_lastActiveTime_is_restored_witness:
  "fst (restoreState no_parse 5000
       (JObj [(''currentState'', JStr ''idle''), (''remainingTime'', JNum 0),
              (''lastActiveTime'', JStr ''not a date''), (''sessionCount'', JNum 0),
              (''totalWorkTime'', JNum 0), (''sessionDuration'', JNum 25),
              (''restDuration'', JNum 5)])) \<noteq> Null
   \<and> snd (restoreState no_parse 5000
       (JObj [(''currentState'', JStr ''idle''), (''remainingTime'', JNum 0),
              (''lastActiveTime'', JStr ''not a date''), (''sessionCount'', JNum 0),
              (''totalWorkTime'', JNum 0), (''sessionDuration'', JNum 25),
              (''restDuration'', JNum 5)])) \<noteq> JUndefined"
  using unparsable_lastActiveTime_is_restored by simp

subsection \<open>Sessions that expired while the host was closed\<close>

text \<open>
  Claim C2: a valid record of a work session or rest period is loaded when at least its
  remaining time has elapsed since \<open>lastActiveTime\<close> (in whole seconds, rounded
  down). For an expired work session, with \<open>overflow = elapsed - remaining\<close>: if
  \<open>overflow < restDuration * 60\<close> the result is a rest period with
  \<open>restDuration * 60 - overflow\<close> seconds remaining, otherwise it is idle with 0 seconds.
  For an expired rest period the result is idle with 0 seconds.
\<close>

theorem restoreState_expired:
  assumes "isValidPersistedState parse ps"
    and "get_prop ps ''currentState'' = JStr (tag cs)"
    and "cs = WORK_SESSION \<or> cs = REST_PERIOD"
    and "get_prop ps ''remainingTime'' = JNum r"
    and "get_prop ps ''restDuration'' = JNum rd"
    and "new_Date parse (get_prop ps ''lastActiveTime'') = Inr (Date lastActive)"
    and "r \<le> (now - lastActive) div 1000"
  shows "\<exists>c. restoreState parse now ps = (Restored c, ps)
           \<and> currentState c =
               (if cs = WORK_SESSION \<and> (now - lastActive) div 1000 - r < rd * 60
                then REST_PERIOD else IDLE)
           \<and> remainingTime c =
               (if cs = WORK_SESSION \<and> (now - lastActive) div 1000 - r < rd * 60
                then rd * 60 - ((now - lastActive) div 1000 - r) else 0)"
  using assms valid_fields [OF assms(1)]
  by (auto simp add: restoreState_def Let_def handleExpiredSession_def createIdleContext_def max_def)

theorem restoreState_expired_witness:
  "\<exists>c. restoreState no_parse 1620000
          (saveState 0 \<lparr>currentState = WORK_SESSION, remainingTime = 1500, sessionDuration = 25,
                        restDuration = 5, pausedAt = None, sessionStartTime = Some (Date 0)\<rparr>
             1 0 JUndefined)
        = (Restored c,
           saveState 0 \<lparr>currentState = WORK_SESSION, remainingTime = 1500, sessionDuration = 25,
                        restDuration = 5, pausedAt = None, sessionStartTime = Some (Date 0)\<rparr>
             1 0 JUndefined)
      \<and> currentState c = REST_PERIOD \<and> remainingTime c = 180"
proof -
  let ?ps = "saveState 0 \<lparr>currentState = WORK_SESSION, remainingTime = 1500, sessionDuration = 25,
                        restDuration = 5, pausedAt = None, sessionStartTime = Some (Date 0)\<rparr>
             1 0 JUndefined"
  have v: "isValidPersistedState no_parse ?ps"
    by (simp add: persist_defs Let_def)
  have s: "get_prop ?ps ''currentState'' = JStr (tag WORK_SESSION)"
    and r: "get_prop ?ps ''remainingTime'' = JNum 1500"
    and d: "get_prop ?ps ''restDuration'' = JNum 5"
    and l: "new_Date no_parse (get_prop ?ps ''lastActiveTime'') = Inr (Date 0)"
    by (simp_all add: saveState_def)
  have e: "(1500::int) \<le> (1620000 - 0) div 1000" by simp
  show ?thesis
    using restoreState_expired [OF v s _ r d l e] by simp
qed

subsection \<open>Saving and restoring at once\<close>

text \<open>
  Claim C7, as stated: a state whose durations are within the bounds, saved and restored
  with no time in between, comes back with the same phase, remaining time and
  durations. A work session with 0 seconds remaining (the state between the tick that
  reaches 0 and the next one) does not: \<open>restoreState\<close> takes a remaining time of 0 for
  an expired session, and returns the rest period that follows it.
\<close>

theorem save_then_restore_counterexample:
  "restoreState no_parse 5000
     (saveState 5000 \<lparr>currentState = WORK_SESSION, remainingTime = 0, sessionDuration = 25,
                      restDuration = 5, pausedAt = None, sessionStartTime = Some (Date 0)\<rparr>
        0 0 JUndefined)
   = (Restored \<lparr>currentState = REST_PERIOD, remainingTime = 300, sessionDuration = 25,
                restDuration = 5, pausedAt = None, sessionStartTime = Some (Date 5000)\<rparr>,
      saveState 5000 \<lparr>currentState = WORK_SESSION, remainingTime = 0, sessionDuration = 25,
                      restDuration = 5, pausedAt = None, sessionStartTime = Some (Date 0)\<rparr>
        0 0 JUndefined)"
  by (simp add: persist_defs Let_def)

text \<open>
  Claim C7, amended: a state whose durations are within the bounds and whose remaining
  time is not negative, and that is idle, paused or has time remaining, comes back from
  a save followed by a restore within the same second with the same phase, remaining
  time, session duration and rest duration.
\<close>

theorem save_then_restore:
  assumes "1 \<le> sessionDuration c \<and> sessionDuration c \<le> 120"
    and "1 \<le> restDuration c \<and> restDuration c \<le> 60"
    and "0 \<le> remainingTime c"
    and "currentState c = IDLE \<or> currentState c = PAUSED \<or> 0 < remainingTime c"
    and "(now' - now) div 1000 = 0"
  shows "\<exists>c'. restoreState parse now' (saveState now c sessionCount totalWorkTime store)
                = (Restored c', saveState now c sessionCount totalWorkTime store)
            \<and> currentState c' = currentState c \<and> remainingTime c' = remainingTime c
            \<and> sessionDuration c' = sessionDuration c \<and> restDuration c' = restDuration c"
  using assms
  by (cases "currentState c"; cases "sessionStartTime c") (simp_all add: persist_defs Let_def)

theorem save_then_restore_witness:
  "\<exists>c'. restoreState no_parse 5999
          (saveState 5000 \<lparr>currentState = WORK_SESSION, remainingTime = 1500, sessionDuration = 25,
                           restDuration = 5, pausedAt = None, sessionStartTime = Some (Date 0)\<rparr>
             2 3000 JUndefined)
        = (Restored c',
           saveState 5000 \<lparr>currentState = WORK_SESSION, remainingTime = 1500, sessionDuration = 25,
                           restDuration = 5, pausedAt = None, sessionStartTime = Some (Date 0)\<rparr>
             2 3000 JUndefined)
      \<and> currentState c' = WORK_SESSION \<and> remainingTime c' = 1500
      \<and> sessionDuration c' = 25 \<and> restDuration c' = 5"
  using save_then_restore
          [of "\<lparr>currentState = WORK_SESSION, remainingTime = 1500, sessionDuration = 25,
                restDuration = 5, pausedAt = None, sessionStartTime = Some (Date 0)\<rparr>"
              5999 5000 no_parse 2 3000 JUndefined]
  by simp

subsection \<open>Idle and paused records\<close>

text \<open>
  Claim C8, as stated: a valid idle or paused record is returned unchanged, timestamps
  included, however much time has passed. The record holds no \<open>pausedAt\<close>; for a paused
  record the context returned has \<open>pausedAt\<close> set to the time of the load. A context
  paused at time 500 and saved comes back paused at 2000 when loaded at 2000, and paused
  at 3602000 when loaded an hour later.
\<close>

theorem restoreState_paused_counterexample:
  "restoreState no_parse 2000
     (saveState 1000 \<lparr>currentState = PAUSED, remainingTime = 900, sessionDuration = 25,
                      restDuration = 5, pausedAt = Some (Date 500), sessionStartTime = Some (Date 0)\<rparr>
        0 0 JUndefined)
   = (Restored \<lparr>currentState = PAUSED, remainingTime = 900, sessionDuration = 25,
                restDuration = 5, pausedAt = Some (Date 2000), sessionStartTime = Some (Date 0)\<rparr>,
      saveState 1000 \<lparr>currentState = PAUSED, remainingTime = 900, sessionDuration = 25,
                      restDuration = 5, pausedAt = Some (Date 500), sessionStartTime = Some (Date 0)\<rparr>
        0 0 JUndefined)
  \<and> restoreState no_parse 3602000
     (saveState 1000 \<lparr>currentState = PAUSED, remainingTime = 900, sessionDuration = 25,
                      restDuration = 5, pausedAt = Some (Date 500), sessionStartTime = Some (Date 0)\<rparr>
        0 0 JUndefined)
   = (Restored \<lparr>currentState = PAUSED, remainingTime = 900, sessionDuration = 25,
                restDuration = 5, pausedAt = Some (Date 3602000), sessionStartTime = Some (Date 0)\<rparr>,
      saveState 1000 \<lparr>currentState = PAUSED, remainingTime = 900, sessionDuration = 25,
                      restDuration = 5, pausedAt = Some (Date 500), sessionStartTime = Some (Date 0)\<rparr>
        0 0 JUndefined)"
  by (simp add: persist_defs Let_def)

text \<open>
  Claim C8, amended: for every valid record whose phase is idle or paused,
  \<open>restoreState\<close> returns the stored phase, remaining time and durations, whatever the
  time of the load and \<open>lastActiveTime\<close>, and leaves the store as it is. The session
  start time returned is the stored value as \<open>new Date\<close> reads it (the same instant for
  a stored \<open>Date\<close>, what \<open>parse\<close> makes of a stored string), and is unset when the
  stored value is absent or falsy. \<open>pausedAt\<close> is the time of the load for a paused
  record and unset for an idle one.
\<close>

theorem restoreState_idle_or_paused:
  assumes "isValidPersistedState parse ps"
    and "get_prop ps ''currentState'' = JStr (tag cs)" and "cs = IDLE \<or> cs = PAUSED"
    and "get_prop ps ''remainingTime'' = JNum r"
    and "get_prop ps ''sessionDuration'' = JNum sd"
    and "get_prop ps ''restDuration'' = JNum rd"
  shows "\<exists>start. restoreState parse now ps
           = (Restored \<lparr>currentState = cs, remainingTime = r, sessionDuration = sd,
                        restDuration = rd,
                        pausedAt = (if cs = PAUSED then Some (Date now) else None),
                        sessionStartTime = start\<rparr>, ps)
         \<and> (if truthy (get_prop ps ''sessionStartTime'')
            then \<exists>d. start = Some d
                   \<and> new_Date parse (get_prop ps ''sessionStartTime'') = Inr d
            else start = None)"
proof -
  from valid_dates [OF assms(1)] obtain la start
    where la: "new_Date parse (get_prop ps ''lastActiveTime'') = Inr la"
      and st: "optional_Date parse (get_prop ps ''sessionStartTime'') = Inr start"
    by blast
  from valid_fields [OF assms(1)] have t: "truthy ps" by simp
  have "restoreState parse now ps
          = (Restored \<lparr>currentState = cs, remainingTime = r, sessionDuration = sd,
                       restDuration = rd,
                       pausedAt = (if cs = PAUSED then Some (Date now) else None),
                       sessionStartTime = start\<rparr>, ps)"
    using assms t la st
    by (auto simp add: restoreState_def createTimerContextFromPersisted_def Let_def)
  moreover have "if truthy (get_prop ps ''sessionStartTime'')
      then \<exists>d. start = Some d \<and> new_Date parse (get_prop ps ''sessionStartTime'') = Inr d
      else start = None"
    using st by (auto simp add: optional_Date_def split: if_splits sum.splits)
  ultimately show ?thesis by blast
qed

text \<open>
  An instance with a record as it comes back from storage, its dates as ISO strings: the
  session started at the epoch, the record was saved one second later, and it is loaded
  after an hour.
\<close>

theorem restoreState_idle_or_paused_witness:
  "restoreState epoch_parse 3602000
     (JObj [(''currentState'', JStr ''paused''), (''remainingTime'', JNum 900),
            (''sessionStartTime'', JStr ''1970-01-01T00:00:00.000Z''),
            (''lastActiveTime'', JStr ''1970-01-01T00:00:01.000Z''),
            (''sessionCount'', JNum 4), (''totalWorkTime'', JNum 6000),
            (''sessionDuration'', JNum 25), (''restDuration'', JNum 5)])
   = (Restored \<lparr>currentState = PAUSED, remainingTime = 900, sessionDuration = 25,
                restDuration = 5, pausedAt = Some (Date 3602000), sessionStartTime = Some (Date 0)\<rparr>,
      JObj [(''currentState'', JStr ''paused''), (''remainingTime'', JNum 900),
            (''sessionStartTime'', JStr ''1970-01-01T00:00:00.000Z''),
            (''lastActiveTime'', JStr ''1970-01-01T00:00:01.000Z''),
            (''sessionCount'', JNum 4), (''totalWorkTime'', JNum 6000),
            (''sessionDuration'', JNum 25), (''restDuration'', JNum 5)])"
proof -
  let ?ps = "JObj [(''currentState'', JStr ''paused''), (''remainingTime'', JNum 900),
            (''sessionStartTime'', JStr ''1970-01-01T00:00:00.000Z''),
            (''lastActiveTime'', JStr ''1970-01-01T00:00:01.000Z''),
            (''sessionCount'', JNum 4), (''totalWorkTime'', JNum 6000),
            (''sessionDuration'', JNum 25), (''restDuration'', JNum 5)]"
  have v: "isValidPersistedState epoch_parse ?ps"
    by (simp add: persist_defs Let_def)
  have f: "get_prop ?ps ''currentState'' = JStr (tag PAUSED)"
    "get_prop ?ps ''remainingTime'' = JNum 900"
    "get_prop ?ps ''sessionDuration'' = JNum 25"
    "get_prop ?ps ''restDuration'' = JNum 5"
    by simp_all
  have d: "truthy (get_prop ?ps ''sessionStartTime'')"
    "new_Date epoch_parse (get_prop ?ps ''sessionStartTime'') = Inr (Date 0)"
    by (simp_all add: epoch_parse_def)
  from restoreState_idle_or_paused [OF v f(1) _ f(2) f(3) f(4), of 3602000]
  obtain start where
    r: "restoreState epoch_parse 3602000 ?ps
          = (Restored \<lparr>currentState = PAUSED, remainingTime = 900, sessionDuration = 25,
                       restDuration = 5, pausedAt = Some (Date 3602000),
                       sessionStartTime = start\<rparr>, ?ps)"
    and s: "\<exists>d. start = Some d
              \<and> new_Date epoch_parse (get_prop ?ps ''sessionStartTime'') = Inr d"
    using d(1) by auto
  from s d(2) have "start = Some (Date 0)" by auto
  with r show ?thesis by simp
qed

end
